theory Spec2Isabelle
  imports Main
begin

section \<open>The batched-call request builder \<open>sendCalls\<close> (EIP-5792)\<close>

text \<open>
  A shallow embedding of \<open>src/experimental/eip5792/actions/sendCalls.ts\<close>.
  The function is a single pass: resolve account and chain, map every call to its wire
  form, assemble one \<open>wallet_sendCalls\<close> request and hand it to \<open>client.request\<close>.
  A \<open>throw\<close> is the left injection of a sum; the two collaborators with observable
  effects (the interface encoder and the agent behind \<open>client.request\<close>) are logged in
  a trace of events, so that "never invoked" is a statement about that trace.
  JavaScript numbers and bigints that the code reads are modelled as \<open>int\<close>;
  \<open>undefined\<close> is \<open>None\<close>.
\<close>

subsection \<open>Data\<close>

type_synonym Hex = string
type_synonym Address = string

text \<open>A chain descriptor. Only its \<open>id\<close> is read by this action.\<close>

record Chain =
  chain_id :: int
  chain_name :: string

record Account =
  account_address :: Address
  account_type :: string

text \<open>The \<open>account\<close> parameter is \<open>Account | Address\<close>.\<close>

datatype account_ref = AddressRef Address | AccountObj Account

text \<open>
  A call as the callback of \<open>map\<close> sees it after the cast \<open>call_ as Call\<close>: every field
  is optional at run time, whatever the \<open>OneOf\<close> types promise.
\<close>

record Call =
  call_abi :: "string option"
  call_functionName :: "string option"
  call_args :: "string list option"
  call_data :: "Hex option"
  call_to :: "Address option"
  call_value :: "int option"
  call_chain :: "Chain option"
  call_chainId :: "int option"

text \<open>The object literal returned by the callback (lines 112-117).\<close>

record NormalizedCall =
  n_chainId :: Hex
  n_data :: "Hex option"
  n_to :: "Address option"
  n_value :: "Hex option"

type_synonym Capabilities = "(string \<times> string) list"

record SendCallsParameters =
  p_account :: "account_ref option"
  p_calls :: "Call list"
  p_capabilities :: "Capabilities option"
  p_chain :: "Chain option"
  p_version :: "string option"

text \<open>The single element of \<open>params\<close> (lines 125-131) and the request around it.\<close>

record WalletSendCalls =
  w_calls :: "NormalizedCall list"
  w_capabilities :: "Capabilities option"
  w_chainId :: Hex
  w_from :: Address
  w_version :: string

record RpcRequest =
  rpc_method :: string
  rpc_params :: "WalletSendCalls list"

record RequestOptions =
  retryCount :: int

text \<open>
  Everything that can be thrown. \<open>AbiEncodingError\<close> and \<open>RpcRequestError\<close> stand for
  the errors of the two collaborators; \<open>TypeError\<close> is what JavaScript raises on reading
  a property of \<open>undefined\<close>. \<open>TransactionExecutionError\<close> carries its cause and the
  arguments that \<open>getTransactionError\<close> was given.
\<close>

datatype thrown =
    AccountNotFoundError string
  | ChainNotFoundError
  | IntegerOutOfRangeError int
  | TypeError
  | AbiEncodingError string
  | RpcRequestError string
  | TransactionExecutionError thrown SendCallsParameters

text \<open>
  \<open>encodeFunctionData\<close> (not part of the sources) is a parameter: given \<open>abi\<close>,
  \<open>functionName\<close> and \<open>args\<close> it returns the payload or throws.
\<close>

type_synonym Encoder = "string \<Rightarrow> string option \<Rightarrow> string list option \<Rightarrow> thrown + Hex"

text \<open>
  The client: its ambient account and chain, and \<open>request\<close>, the agent boundary. The
  awaited promise either resolves with an identifier or rejects.
\<close>

record Client =
  client_account :: "Account option"
  client_chain :: "Chain option"
  client_request :: "RpcRequest \<Rightarrow> RequestOptions \<Rightarrow> thrown + string"

text \<open>Observable calls to the collaborators, in the order they happen.\<close>

datatype event =
    EncodeFunctionData string "string option" "string list option"
  | ClientRequest RpcRequest RequestOptions

fun isClientRequest :: "event \<Rightarrow> bool" where
  "isClientRequest (ClientRequest r opts) = True"
| "isClientRequest (EncodeFunctionData a f xs) = False"

fun isEncodeFunctionData :: "event \<Rightarrow> bool" where
  "isEncodeFunctionData (EncodeFunctionData a f xs) = True"
| "isEncodeFunctionData (ClientRequest r opts) = False"

subsection \<open>Imported helpers\<close>

text \<open>
  Modelled from the spec: \<open>numberToHex\<close> lives in \<open>utils/encoding/toHex.js\<close>, which is
  not among the sources. The spec describes it as a pure, deterministic conversion to
  canonical hexadecimal text in which zero is \<open>0x0\<close> and which fails on negative input.
  \<open>hexDigit\<close> is only applied to values below sixteen.
\<close>

definition hexDigit :: "nat \<Rightarrow> char" where
  "hexDigit n = ''0123456789abcdef'' ! n"

fun hexDigits :: "nat \<Rightarrow> string" where
  "hexDigits n = (if n < 16 then [hexDigit n] else hexDigits (n div 16) @ [hexDigit (n mod 16)])"

declare hexDigits.simps [simp del]

definition numberToHex :: "int \<Rightarrow> thrown + Hex" where
  "numberToHex v =
     (if v < 0 then Inl (IntegerOutOfRangeError v) else Inr (''0x'' @ hexDigits (nat v)))"

text \<open>
  Modelled from the spec: \<open>parseAccount\<close> lives in \<open>accounts/utils/parseAccount.js\<close>,
  which is not among the sources. The spec describes it as producing, from an address or
  an account handle, a concrete account with an address.
\<close>

fun parseAccount :: "account_ref \<Rightarrow> Account" where
  "parseAccount (AddressRef a) = \<lparr>account_address = a, account_type = ''json-rpc''\<rparr>"
| "parseAccount (AccountObj acc) = acc"

text \<open>
  Modelled from the spec: \<open>getTransactionError\<close> lives in
  \<open>utils/errors/getTransactionError.js\<close>, which is not among the sources. The spec
  describes it as converting the raw failure into a transaction error to which the
  context it is given is attached.
\<close>

definition getTransactionError :: "thrown \<Rightarrow> SendCallsParameters \<Rightarrow> thrown" where
  "getTransactionError err args = TransactionExecutionError err args"

subsection \<open>JavaScript operators the code relies on\<close>

text \<open>\<open>a ?? b\<close>: the right operand is used only when the left one is \<open>undefined\<close>.\<close>

fun nullish :: "'a option \<Rightarrow> 'a option \<Rightarrow> 'a option" where
  "nullish (Some a) b = Some a"
| "nullish None b = b"

text \<open>
  A destructuring default \<open>{ x = d } = parameters\<close>: \<open>d\<close> is taken exactly when the
  property is \<open>undefined\<close>.
\<close>

fun withDefault :: "'a option \<Rightarrow> 'a option \<Rightarrow> 'a option" where
  "withDefault (Some a) d = Some a"
| "withDefault None d = d"

text \<open>\<open>c?.id\<close> on an optional chain descriptor.\<close>

fun optId :: "Chain option \<Rightarrow> int option" where
  "optId None = None"
| "optId (Some c) = Some (chain_id c)"

text \<open>
  \<open>!account_\<close>: \<open>undefined\<close> and the empty string are falsy, every object is truthy.
\<close>

fun falsyAccount :: "account_ref option \<Rightarrow> bool" where
  "falsyAccount None = True"
| "falsyAccount (Some (AddressRef a)) = (a = [])"
| "falsyAccount (Some (AccountObj acc)) = False"

subsection \<open>The callback of \<open>parameters.calls.map\<close> (lines 98-118)\<close>

text \<open>Line 101: \<open>call.chain?.id ?? call.chainId ?? chain?.id\<close>.\<close>

definition resolveChainId :: "Chain option \<Rightarrow> Call \<Rightarrow> int option" where
  "resolveChainId chain call =
     nullish (nullish (optId (call_chain call)) (call_chainId call)) (optId chain)"

text \<open>
  Lines 104-110: the encoder is invoked exactly when \<open>call.abi\<close> is present (an array is
  truthy even when empty); otherwise \<open>call.data\<close> passes through.
\<close>

definition resolveData :: "Encoder \<Rightarrow> Call \<Rightarrow> (thrown + Hex option) \<times> event list" where
  "resolveData encodeFunctionData call =
     (case call_abi call of
        Some abi \<Rightarrow>
          (map_sum id Some (encodeFunctionData abi (call_functionName call) (call_args call)),
           [EncodeFunctionData abi (call_functionName call) (call_args call)])
      | None \<Rightarrow> (Inr (call_data call), []))"

text \<open>Line 116: \<open>call.value ? numberToHex(call.value) : undefined\<close>; \<open>0n\<close> is falsy.\<close>

definition resolveValue :: "int option \<Rightarrow> thrown + Hex option" where
  "resolveValue v =
     (case v of
        None \<Rightarrow> Inr None
      | Some n \<Rightarrow> if n = 0 then Inr None else map_sum id Some (numberToHex n))"

text \<open>
  The callback, in the order the source evaluates it: chain id and its check, the
  payload, then the fields of the returned object from top to bottom.
\<close>

definition normalizeCall ::
  "Encoder \<Rightarrow> Chain option \<Rightarrow> Call \<Rightarrow> (thrown + NormalizedCall) \<times> event list" where
  "normalizeCall encodeFunctionData chain call =
     (case resolveChainId chain call of
        None \<Rightarrow> (Inl ChainNotFoundError, [])
      | Some chainId \<Rightarrow>
          if chainId = 0 then (Inl ChainNotFoundError, [])
          else
            (case resolveData encodeFunctionData call of
               (Inl e, tr) \<Rightarrow> (Inl e, tr)
             | (Inr data, tr) \<Rightarrow>
                 (case numberToHex chainId of
                    Inl e \<Rightarrow> (Inl e, tr)
                  | Inr chainIdHex \<Rightarrow>
                      (case resolveValue (call_value call) of
                         Inl e \<Rightarrow> (Inl e, tr)
                       | Inr v \<Rightarrow>
                           (Inr \<lparr>n_chainId = chainIdHex, n_data = data,
                                 n_to = call_to call, n_value = v\<rparr>, tr)))))"

text \<open>\<open>Array.prototype.map\<close> with a callback that may throw: left to right, the first
  throw ends the loop.\<close>

fun mapCalls ::
  "Encoder \<Rightarrow> Chain option \<Rightarrow> Call list \<Rightarrow> (thrown + NormalizedCall list) \<times> event list" where
  "mapCalls encodeFunctionData chain [] = (Inr [], [])"
| "mapCalls encodeFunctionData chain (c # cs) =
     (case normalizeCall encodeFunctionData chain c of
        (Inl e, tr) \<Rightarrow> (Inl e, tr)
      | (Inr n, tr) \<Rightarrow>
          (case mapCalls encodeFunctionData chain cs of
             (Inl e, tr') \<Rightarrow> (Inl e, tr @ tr')
           | (Inr ns, tr') \<Rightarrow> (Inr (n # ns), tr @ tr')))"

subsection \<open>The \<open>try\<close> block (lines 120-135) and \<open>sendCalls\<close>\<close>

text \<open>
  The argument of \<open>client.request\<close> is built first; \<open>chain!.id\<close> is a plain property
  read at run time, so an undefined \<open>chain\<close> raises a \<open>TypeError\<close> there, inside the
  \<open>try\<close>, before the agent is reached.
\<close>

definition dispatch ::
  "Client \<Rightarrow> Chain option \<Rightarrow> NormalizedCall list \<Rightarrow> Capabilities option \<Rightarrow> Account \<Rightarrow> string
     \<Rightarrow> (thrown + string) \<times> event list" where
  "dispatch client chain calls capabilities account version =
     (case chain of
        None \<Rightarrow> (Inl TypeError, [])
      | Some c \<Rightarrow>
          (case numberToHex (chain_id c) of
             Inl e \<Rightarrow> (Inl e, [])
           | Inr chainIdHex \<Rightarrow>
               (let request =
                      \<lparr>rpc_method = ''wallet_sendCalls'',
                       rpc_params =
                         [\<lparr>w_calls = calls, w_capabilities = capabilities,
                           w_chainId = chainIdHex, w_from = account_address account,
                           w_version = version\<rparr>]\<rparr>;
                    options = \<lparr>retryCount = 0\<rparr>
                in (client_request client request options,
                    [ClientRequest request options]))))"

definition sendCalls ::
  "Encoder \<Rightarrow> Client \<Rightarrow> SendCallsParameters \<Rightarrow> (thrown + string) \<times> event list" where
  "sendCalls encodeFunctionData client parameters =
     (let accountRef =
            withDefault (p_account parameters) (map_option AccountObj (client_account client));
          capabilities = p_capabilities parameters;
          chain = withDefault (p_chain parameters) (client_chain client);
          version = (case p_version parameters of Some v \<Rightarrow> v | None \<Rightarrow> ''1.0'')
      in
        (case accountRef of
           None \<Rightarrow> (Inl (AccountNotFoundError ''/experimental/eip5792/sendCalls''), [])
         | Some a \<Rightarrow>
             if falsyAccount accountRef
             then (Inl (AccountNotFoundError ''/experimental/eip5792/sendCalls''), [])
             else
               (let account = parseAccount a in
                  (case mapCalls encodeFunctionData chain (p_calls parameters) of
                     (Inl e, tr) \<Rightarrow> (Inl e, tr)
                   | (Inr calls, tr) \<Rightarrow>
                       (case dispatch client chain calls capabilities account version of
                          (Inr ident, tr') \<Rightarrow> (Inr ident, tr @ tr')
                        | (Inl err, tr') \<Rightarrow>
                            (Inl (getTransactionError err
                                    (parameters\<lparr>p_account := Some (AccountObj account),
                                                p_chain := p_chain parameters\<rparr>)),
                             tr @ tr'))))))"

subsection \<open>Concrete inputs used to evaluate the model\<close>

definition mainnet :: Chain where
  "mainnet = \<lparr>chain_id = 1, chain_name = ''Ethereum''\<rparr>"

definition optimism :: Chain where
  "optimism = \<lparr>chain_id = 10, chain_name = ''OP Mainnet''\<rparr>"

definition rawCall :: Call where
  "rawCall =
     \<lparr>call_abi = None, call_functionName = None, call_args = None,
      call_data = Some ''0xdeadbeef'', call_to = Some ''0xAAA'', call_value = None,
      call_chain = None, call_chainId = None\<rparr>"

definition transferCall :: Call where
  "transferCall = rawCall\<lparr>call_data := None, call_to := Some ''0xBBB'', call_value := Some 69420\<rparr>"

definition structuredCall :: Call where
  "structuredCall =
     rawCall\<lparr>call_abi := Some ''[mint]'', call_functionName := Some ''mint'',
             call_args := Some [], call_data := None\<rparr>"

text \<open>A call that names both a chain descriptor and a bare chain id.\<close>

definition bothChainsCall :: Call where
  "bothChainsCall = rawCall\<lparr>call_chain := Some optimism, call_chainId := Some 5\<rparr>"

text \<open>A call that names only a bare chain id.\<close>

definition bareChainIdCall :: Call where
  "bareChainIdCall = rawCall\<lparr>call_chainId := Some 5\<rparr>"

text \<open>A chain descriptor whose id is zero, and a call that transfers the amount zero.\<close>

definition zeroChain :: Chain where
  "zeroChain = \<lparr>chain_id = 0, chain_name = ''zero''\<rparr>"

definition zeroValueCall :: Call where
  "zeroValueCall = rawCall\<lparr>call_value := Some 0\<rparr>"

text \<open>
  A raw call that names its own chain, a structured call that names its own chain, and the
  account that \<open>parseAccount\<close> makes of the address used in \<open>batch\<close> below.
\<close>

definition ownChainCall :: Call where
  "ownChainCall = rawCall\<lparr>call_chainId := Some 1\<rparr>"

definition failingStructuredCall :: Call where
  "failingStructuredCall = structuredCall\<lparr>call_chainId := Some 1\<rparr>"

definition jsonRpcAccount :: Account where
  "jsonRpcAccount = \<lparr>account_address = ''0xA0Cf'', account_type = ''json-rpc''\<rparr>"

text \<open>The wire forms the spec's scenario expects for the first two calls on chain 1.\<close>

definition rawCallWire :: NormalizedCall where
  "rawCallWire =
     \<lparr>n_chainId = ''0x1'', n_data = Some ''0xdeadbeef'', n_to = Some ''0xAAA'',
      n_value = None\<rparr>"

definition transferCallWire :: NormalizedCall where
  "transferCallWire =
     \<lparr>n_chainId = ''0x1'', n_data = None, n_to = Some ''0xBBB'', n_value = Some ''0x10f2c''\<rparr>"

text \<open>An encoder that knows one function, and one that always fails.\<close>

definition mintEncoder :: Encoder where
  "mintEncoder abi functionName args =
     (if functionName = Some ''mint'' then Inr ''0x1249c58b''
      else Inl (AbiEncodingError ''function not found''))"

definition failingEncoder :: Encoder where
  "failingEncoder abi functionName args = Inl (AbiEncodingError ''function not found'')"

text \<open>An agent that accepts every request, and one that rejects every request.\<close>

definition acceptingClient :: "Account option \<Rightarrow> Chain option \<Rightarrow> Client" where
  "acceptingClient acc chain =
     \<lparr>client_account = acc, client_chain = chain,
      client_request = (\<lambda>r opts. Inr ''0xbatch'')\<rparr>"

definition rejectingClient :: "Account option \<Rightarrow> Chain option \<Rightarrow> Client" where
  "rejectingClient acc chain =
     \<lparr>client_account = acc, client_chain = chain,
      client_request = (\<lambda>r opts. Inl (RpcRequestError ''user rejected''))\<rparr>"

definition batch :: "Call list \<Rightarrow> SendCallsParameters" where
  "batch cs =
     \<lparr>p_account = Some (AddressRef ''0xA0Cf''), p_calls = cs, p_capabilities = None,
      p_chain = None, p_version = None\<rparr>"

text \<open>The request that \<open>batch [rawCall]\<close> produces on chain 1.\<close>

definition scenarioRequest :: RpcRequest where
  "scenarioRequest =
     \<lparr>rpc_method = ''wallet_sendCalls'',
      rpc_params = [\<lparr>w_calls = [rawCallWire], w_capabilities = None, w_chainId = ''0x1'',
                     w_from = ''0xA0Cf'', w_version = ''1.0''\<rparr>]\<rparr>"

section \<open>Properties\<close>

subsection \<open>Helper facts\<close>

lemmas model_defs = sendCalls_def dispatch_def normalizeCall_def resolveChainId_def
  resolveData_def resolveValue_def numberToHex_def getTransactionError_def hexDigits.simps hexDigit_def

lemmas input_defs = mainnet_def optimism_def rawCall_def transferCall_def structuredCall_def
  rawCallWire_def transferCallWire_def mintEncoder_def failingEncoder_def acceptingClient_def
  rejectingClient_def batch_def bothChainsCall_def zeroChain_def zeroValueCall_def
  ownChainCall_def failingStructuredCall_def jsonRpcAccount_def scenarioRequest_def
  bareChainIdCall_def

lemma scenario_normalized:
  "mapCalls mintEncoder (Some mainnet) [rawCall, transferCall] =
     (Inr [rawCallWire, transferCallWire], [])"
  by (simp add: model_defs input_defs)

lemma normalizeCall_trace_encode:
  "e \<in> set (snd (normalizeCall enc chain c)) \<Longrightarrow> isEncodeFunctionData e"
  by (auto simp: normalizeCall_def resolveData_def split: option.splits if_splits sum.splits prod.splits)

lemma mapCalls_trace_encode:
  "e \<in> set (snd (mapCalls enc chain cs)) \<Longrightarrow> isEncodeFunctionData e"
proof (induction cs arbitrary: e)
  case Nil
  then show ?case by simp
next
  case (Cons c cs)
  obtain r tr where n: "normalizeCall enc chain c = (r, tr)" by (cases "normalizeCall enc chain c")
  obtain r' tr' where m: "mapCalls enc chain cs = (r', tr')" by (cases "mapCalls enc chain cs")
  have "e \<in> set tr \<or> e \<in> set tr'"
    using Cons.prems n m by (auto split: sum.splits)
  then show ?case
    using normalizeCall_trace_encode [of e enc chain c] Cons.IH [of e] n m by auto
qed

lemma mapCalls_Inr:
  "mapCalls enc chain cs = (Inr ns, tr) \<Longrightarrow>
     list_all2 (\<lambda>c n. fst (normalizeCall enc chain c) = Inr n) cs ns"
proof (induction cs arbitrary: ns tr)
  case Nil
  then show ?case by simp
next
  case (Cons c cs)
  then show ?case
    by (auto split: sum.splits prod.splits)
qed

lemma mapCalls_first_failure:
  assumes "\<forall>x\<in>set pre. \<not> isl (fst (normalizeCall enc chain x))"
    and "fst (normalizeCall enc chain c) = Inl e"
  shows "fst (mapCalls enc chain (pre @ c # post)) = Inl e"
  using assms
proof (induction pre)
  case Nil
  then show ?case by (cases "normalizeCall enc chain c") (auto split: sum.splits prod.splits)
next
  case (Cons p pre)
  then show ?case
    by (cases "normalizeCall enc chain p") (auto split: sum.splits prod.splits)
qed

lemma mapCalls_fails_if_some_call_fails:
  assumes "c \<in> set cs" and "isl (fst (normalizeCall enc chain c))"
  shows "isl (fst (mapCalls enc chain cs))"
  using assms
proof (induction cs)
  case Nil
  then show ?case by simp
next
  case (Cons x xs)
  then show ?case
    by (cases "normalizeCall enc chain x"; cases "mapCalls enc chain xs")
       (auto split: sum.splits prod.splits)
qed

lemma dispatch_trace:
  "snd (dispatch client chain calls caps acc ver) = [] \<or>
   (\<exists>r. snd (dispatch client chain calls caps acc ver) = [ClientRequest r \<lparr>retryCount = 0\<rparr>]
        \<and> fst (dispatch client chain calls caps acc ver) = client_request client r \<lparr>retryCount = 0\<rparr>
        \<and> (\<exists>w. rpc_params r = [w] \<and> w_calls w = calls))"
  by (auto simp: dispatch_def Let_def split: option.splits sum.splits)


lemma sendCalls_falsy:
  "falsyAccount (withDefault (p_account ps) (map_option AccountObj (client_account client))) \<Longrightarrow>
     sendCalls enc client ps = (Inl (AccountNotFoundError ''/experimental/eip5792/sendCalls''), [])"
  by (auto simp: sendCalls_def Let_def split: option.splits)

lemma sendCalls_map_fails:
  assumes "\<not> falsyAccount (withDefault (p_account ps) (map_option AccountObj (client_account client)))"
    and "mapCalls enc (withDefault (p_chain ps) (client_chain client)) (p_calls ps) = (Inl e, tr)"
  shows "sendCalls enc client ps = (Inl e, tr)"
  using assms by (auto simp: sendCalls_def Let_def split: option.splits)

lemma sendCalls_map_ok:
  assumes "withDefault (p_account ps) (map_option AccountObj (client_account client)) = Some a"
    and "\<not> falsyAccount (Some a)"
    and "mapCalls enc (withDefault (p_chain ps) (client_chain client)) (p_calls ps) = (Inr ns, tr)"
    and "dispatch client (withDefault (p_chain ps) (client_chain client)) ns (p_capabilities ps)
           (parseAccount a) (case p_version ps of Some v \<Rightarrow> v | None \<Rightarrow> ''1.0'') = (r, tr')"
  shows "sendCalls enc client ps =
           (case r of
              Inr ident \<Rightarrow> Inr ident
            | Inl err \<Rightarrow>
                Inl (TransactionExecutionError err
                       (ps\<lparr>p_account := Some (AccountObj (parseAccount a))\<rparr>)),
            tr @ tr')"
  using assms
  by (auto simp: sendCalls_def Let_def getTransactionError_def split: option.splits sum.splits)

lemma hexDigits_nonempty: "hexDigits n \<noteq> []"
  by (subst hexDigits.simps) simp

lemma hexDigit_zero: "n < 16 \<Longrightarrow> hexDigit n = CHR ''0'' \<Longrightarrow> n = 0"
  by (auto simp: hexDigit_def less_Suc_eq numeral_eq_Suc)

lemma hexDigits_zero: "hexDigits n = ''0'' \<Longrightarrow> n = 0"
proof (cases "n < 16")
  case True
  assume "hexDigits n = ''0''"
  with True have "hexDigit n = CHR ''0''" by (subst (asm) hexDigits.simps) simp
  with True show ?thesis by (rule hexDigit_zero)
next
  case False
  assume "hexDigits n = ''0''"
  with False have "hexDigits (n div 16) @ [hexDigit (n mod 16)] = [CHR ''0'']"
    by (subst (asm) hexDigits.simps) simp
  then have "hexDigits (n div 16) = []" by simp
  with hexDigits_nonempty show ?thesis by blast
qed

lemma numberToHex_zero_wire: "numberToHex k = Inr ''0x0'' \<Longrightarrow> k = 0"
  using hexDigits_zero [of "nat k"] by (auto simp: numberToHex_def split: if_splits)

lemma normalizeCall_Inr_chainId:
  assumes "fst (normalizeCall enc chain c) = Inr n"
  shows "\<exists>j. resolveChainId chain c = Some j \<and> j \<noteq> 0 \<and> numberToHex j = Inr (n_chainId n)"
  using assms
  by (auto simp: normalizeCall_def split: option.splits if_splits sum.splits prod.splits)

lemma sendCalls_request_event:
  assumes "ClientRequest r opts \<in> set (snd (sendCalls enc client ps))"
  shows "\<exists>a ns tr w.
           withDefault (p_account ps) (map_option AccountObj (client_account client)) = Some a
         \<and> \<not> falsyAccount (Some a)
         \<and> mapCalls enc (withDefault (p_chain ps) (client_chain client)) (p_calls ps) = (Inr ns, tr)
         \<and> opts = \<lparr>retryCount = 0\<rparr> \<and> rpc_params r = [w] \<and> w_calls w = ns
         \<and> snd (sendCalls enc client ps) = tr @ [ClientRequest r opts]
         \<and> fst (sendCalls enc client ps) =
             (case client_request client r opts of
                Inr ident \<Rightarrow> Inr ident
              | Inl err \<Rightarrow>
                  Inl (TransactionExecutionError err
                         (ps\<lparr>p_account := Some (AccountObj (parseAccount a))\<rparr>)))"
proof -
  let ?acc = "withDefault (p_account ps) (map_option AccountObj (client_account client))"
  let ?chain = "withDefault (p_chain ps) (client_chain client)"
  let ?ver = "case p_version ps of Some v \<Rightarrow> v | None \<Rightarrow> ''1.0''"
  have nf: "\<not> falsyAccount ?acc"
    using assms sendCalls_falsy [of ps client enc] by auto
  then obtain a where a: "?acc = Some a" by (cases ?acc) auto
  obtain m tr where m: "mapCalls enc ?chain (p_calls ps) = (m, tr)"
    by (cases "mapCalls enc ?chain (p_calls ps)")
  have tr_enc: "\<forall>e\<in>set tr. isEncodeFunctionData e"
    using mapCalls_trace_encode [of _ enc ?chain "p_calls ps"] m by simp
  show ?thesis
  proof (cases m)
    case (Inl e)
    with sendCalls_map_fails [OF nf] m have "snd (sendCalls enc client ps) = tr" by simp
    with assms tr_enc show ?thesis by force
  next
    case (Inr ns)
    obtain d tr' where d: "dispatch client ?chain ns (p_capabilities ps) (parseAccount a) ?ver = (d, tr')"
      by (cases "dispatch client ?chain ns (p_capabilities ps) (parseAccount a) ?ver")
    have s: "sendCalls enc client ps =
           (case d of
              Inr ident \<Rightarrow> Inr ident
            | Inl err \<Rightarrow>
                Inl (TransactionExecutionError err
                       (ps\<lparr>p_account := Some (AccountObj (parseAccount a))\<rparr>)),
            tr @ tr')"
      using sendCalls_map_ok [OF a _ _ d, of enc tr] nf a m Inr by simp
    from assms s tr_enc have "ClientRequest r opts \<in> set tr'" by force
    with dispatch_trace [of client ?chain ns "p_capabilities ps" "parseAccount a" ?ver] d
    have "tr' = [ClientRequest r opts] \<and> opts = \<lparr>retryCount = 0\<rparr>
          \<and> d = client_request client r opts \<and> (\<exists>w. rpc_params r = [w] \<and> w_calls w = ns)"
      by auto
    with s a nf m Inr show ?thesis by auto
  qed
qed

lemma encode_not_request: "isEncodeFunctionData e \<Longrightarrow> \<not> isClientRequest e"
  by (cases e) auto

lemma mapCalls_no_request:
  assumes "mapCalls enc chain cs = (r, tr)"
  shows "filter isClientRequest tr = []"
proof -
  have "\<not> isClientRequest e" if "e \<in> set tr" for e
    using that assms mapCalls_trace_encode [of e enc chain cs] encode_not_request [of e] by simp
  then show ?thesis by (simp add: filter_empty_conv)
qed

lemma resolveValue_Inr:
  assumes "resolveValue v = Inr x"
  shows "map_option Inr x =
           (case v of None \<Rightarrow> None | Some n \<Rightarrow> if n = 0 then None else Some (numberToHex n))"
proof (cases v)
  case None
  with assms show ?thesis by (simp add: resolveValue_def)
next
  case (Some n)
  show ?thesis
  proof (cases "n = 0")
    case True
    with Some assms show ?thesis by (simp add: resolveValue_def)
  next
    case False
    with Some assms show ?thesis
      by (cases "numberToHex n") (auto simp: resolveValue_def)
  qed
qed

lemma normalizeCall_Inr_value:
  assumes "normalizeCall enc chain c = (Inr n, tr)"
  shows "resolveValue (call_value c) = Inr (n_value n)"
  using assms
  by (auto simp: normalizeCall_def split: option.splits if_splits sum.splits prod.splits)

lemma normalizeCall_encode_failure:
  assumes "normalizeCall enc chain c = (r, t)"
    and "EncodeFunctionData a f x \<in> set t" and "enc a f x = Inl e"
  shows "r = Inl e"
  using assms
  by (auto simp: normalizeCall_def resolveData_def
           split: option.splits if_splits sum.splits prod.splits)

lemma mapCalls_encode_failure:
  assumes "mapCalls enc chain cs = (r, t)"
    and "EncodeFunctionData a f x \<in> set t" and "enc a f x = Inl e"
  shows "r = Inl e"
  using assms
proof (induction cs arbitrary: r t)
  case Nil
  then show ?case by simp
next
  case (Cons c cs)
  obtain r1 t1 where n: "normalizeCall enc chain c = (r1, t1)"
    by (cases "normalizeCall enc chain c")
  obtain r2 t2 where m: "mapCalls enc chain cs = (r2, t2)"
    by (cases "mapCalls enc chain cs")
  show ?case
  proof (cases r1)
    case (Inl e1)
    with Cons.prems n have "r = Inl e1" "t = t1" by auto
    with normalizeCall_encode_failure [OF n _ Cons.prems(3)] Cons.prems(2) Inl
    show ?thesis by auto
  next
    case (Inr n1)
    with Cons.prems(1) n m have rt: "t = t1 @ t2" "isl r = isl r2" "r2 = Inl e \<Longrightarrow> r = Inl e"
      by (auto split: sum.splits)
    from normalizeCall_encode_failure [OF n _ Cons.prems(3)] Inr
    have "EncodeFunctionData a f x \<notin> set t1" by auto
    with Cons.prems(2) rt have "EncodeFunctionData a f x \<in> set t2" by simp
    from Cons.IH [OF m this Cons.prems(3)] rt show ?thesis by simp
  qed
qed

lemma dispatch_trace_requests:
  "e \<in> set (snd (dispatch client chain calls caps acc ver)) \<Longrightarrow> isClientRequest e"
  using dispatch_trace [of client chain calls caps acc ver] by auto

lemma normalizeCall_no_chain:
  "resolveChainId chain c = None \<Longrightarrow> normalizeCall enc chain c = (Inl ChainNotFoundError, [])"
  by (simp add: normalizeCall_def)

lemma rejected_run:
  "sendCalls mintEncoder (rejectingClient None (Some mainnet)) (batch [rawCall]) =
     (Inl (TransactionExecutionError (RpcRequestError ''user rejected'')
            ((batch [rawCall])\<lparr>p_account := Some (AccountObj jsonRpcAccount)\<rparr>)),
      [ClientRequest scenarioRequest \<lparr>retryCount = 0\<rparr>])"
  by (simp add: model_defs input_defs)

lemma first_failing_call:
  assumes "c \<in> set cs" and "isl (fst (normalizeCall enc chain c))"
  shows "\<exists>pre x post. cs = pre @ x # post \<and> c \<in> set (x # post)
           \<and> (\<forall>y\<in>set pre. \<not> isl (fst (normalizeCall enc chain y)))
           \<and> isl (fst (normalizeCall enc chain x))"
proof -
  from assms have "\<exists>x\<in>set cs. isl (fst (normalizeCall enc chain x))" by blast
  from split_list_first_prop [OF this] obtain pre x post where
    s: "cs = pre @ x # post" "isl (fst (normalizeCall enc chain x))"
       "\<forall>y\<in>set pre. \<not> isl (fst (normalizeCall enc chain y))"
    by blast
  with assms have "c \<notin> set pre" by blast
  with assms(1) s(1) have "c \<in> set (x # post)" by auto
  with s show ?thesis by blast
qed

lemma sendCalls_first_failure:
  assumes "\<not> falsyAccount (withDefault (p_account ps) (map_option AccountObj (client_account client)))"
    and "p_calls ps = pre @ x # post"
    and "\<forall>y\<in>set pre. \<not> isl (fst (normalizeCall enc (withDefault (p_chain ps) (client_chain client)) y))"
    and "fst (normalizeCall enc (withDefault (p_chain ps) (client_chain client)) x) = Inl e"
  shows "fst (sendCalls enc client ps) = Inl e"
proof -
  let ?chain = "withDefault (p_chain ps) (client_chain client)"
  obtain m tr where m: "mapCalls enc ?chain (p_calls ps) = (m, tr)"
    by (cases "mapCalls enc ?chain (p_calls ps)")
  from mapCalls_first_failure [OF assms(3) assms(4), of post] assms(2) m
  have "m = Inl e" by simp
  with sendCalls_map_fails [OF assms(1)] m show ?thesis by simp
qed

subsection \<open>Account resolution\<close>

text \<open>
  Claim C5. With no explicit \<open>account\<close> parameter and no account on the client, the
  operation throws \<open>AccountNotFoundError\<close>, and it does so before the calls are mapped:
  the trace is empty, so neither the encoder nor the agent has been invoked.
\<close>

theorem account_missing_fails_before_normalization:
  assumes "p_account parameters = None" and "client_account client = None"
  shows "sendCalls enc client parameters =
           (Inl (AccountNotFoundError ''/experimental/eip5792/sendCalls''), [])"
  using assms sendCalls_falsy [of parameters client enc] by simp

theorem account_missing_fails_before_normalization_witness:
  "p_account ((batch [structuredCall, rawCall])\<lparr>p_account := None\<rparr>) = None
   \<and> client_account (acceptingClient None (Some mainnet)) = None
   \<and> sendCalls mintEncoder (acceptingClient None (Some mainnet))
        ((batch [structuredCall, rawCall])\<lparr>p_account := None\<rparr>) =
       (Inl (AccountNotFoundError ''/experimental/eip5792/sendCalls''), [])"
  using account_missing_fails_before_normalization
          [of "(batch [structuredCall, rawCall])\<lparr>p_account := None\<rparr>"
              "acceptingClient None (Some mainnet)" mintEncoder]
  by (simp add: batch_def acceptingClient_def)

subsection \<open>Normalization\<close>

text \<open>
  Claim C4. The effective chain id of a call is the id of the call's chain descriptor when
  the call has one (also when it has a bare chain id as well); otherwise the call's bare
  chain id when it has one; otherwise the id of the batch-level chain. The callback works
  with exactly that number: when it is present and not zero and the payload and the value
  resolve, the callback returns the normalized call whose chain id is its hexadecimal
  form; a chain id on the wire is always the hexadecimal form of that number; and when no
  level gives a number the callback throws \<open>ChainNotFoundError\<close>.
\<close>

theorem chain_id_precedence:
  "(call_chain c = Some d \<longrightarrow> resolveChainId chain c = Some (chain_id d))
   \<and> (call_chain c = None \<longrightarrow> call_chainId c = Some k \<longrightarrow> resolveChainId chain c = Some k)
   \<and> (call_chain c = None \<longrightarrow> call_chainId c = None \<longrightarrow> resolveChainId chain c = optId chain)
   \<and> (normalizeCall enc chain c = (Inr n, tr) \<longrightarrow>
        (\<exists>j. resolveChainId chain c = Some j \<and> numberToHex j = Inr (n_chainId n)))
   \<and> (resolveChainId chain c = Some j \<longrightarrow> j \<noteq> 0 \<longrightarrow> numberToHex j = Inr h \<longrightarrow>
        resolveData enc c = (Inr dat, t) \<longrightarrow> resolveValue (call_value c) = Inr v \<longrightarrow>
          normalizeCall enc chain c =
            (Inr \<lparr>n_chainId = h, n_data = dat, n_to = call_to c, n_value = v\<rparr>, t))
   \<and> (resolveChainId chain c = None \<longrightarrow>
          normalizeCall enc chain c = (Inl ChainNotFoundError, []))"
proof (intro conjI impI)
  assume "normalizeCall enc chain c = (Inr n, tr)"
  then have "fst (normalizeCall enc chain c) = Inr n" by simp
  from normalizeCall_Inr_chainId [OF this]
  show "\<exists>j. resolveChainId chain c = Some j \<and> numberToHex j = Inr (n_chainId n)" by blast
next
  assume "resolveChainId chain c = Some j" "j \<noteq> 0" "numberToHex j = Inr h"
    "resolveData enc c = (Inr dat, t)" "resolveValue (call_value c) = Inr v"
  then show "normalizeCall enc chain c =
            (Inr \<lparr>n_chainId = h, n_data = dat, n_to = call_to c, n_value = v\<rparr>, t)"
    by (simp add: normalizeCall_def)
next
  assume "resolveChainId chain c = None"
  then show "normalizeCall enc chain c = (Inl ChainNotFoundError, [])"
    by (rule normalizeCall_no_chain)
qed (simp_all add: resolveChainId_def)

theorem chain_id_precedence_witness:
  "call_chain bothChainsCall = Some optimism \<and> call_chainId bothChainsCall = Some 5
   \<and> normalizeCall mintEncoder (Some mainnet) bothChainsCall =
       (Inr (rawCallWire\<lparr>n_chainId := ''0xa''\<rparr>), [])
   \<and> call_chain bareChainIdCall = None \<and> call_chainId bareChainIdCall = Some 5
   \<and> normalizeCall mintEncoder (Some mainnet) bareChainIdCall =
       (Inr (rawCallWire\<lparr>n_chainId := ''0x5''\<rparr>), [])
   \<and> call_chain rawCall = None \<and> call_chainId rawCall = None
   \<and> normalizeCall mintEncoder (Some mainnet) rawCall = (Inr rawCallWire, [])
   \<and> resolveChainId None rawCall = None
   \<and> normalizeCall mintEncoder None rawCall = (Inl ChainNotFoundError, [])
   \<and> (\<exists>j. resolveChainId (Some mainnet) bothChainsCall = Some j
          \<and> numberToHex j = Inr (n_chainId (rawCallWire\<lparr>n_chainId := ''0xa''\<rparr>)))"
proof -
  have f: "call_chain bothChainsCall = Some optimism" "call_chainId bothChainsCall = Some 5"
    "call_chain bareChainIdCall = None" "call_chainId bareChainIdCall = Some 5"
    "call_chain rawCall = None" "call_chainId rawCall = None"
    by (simp_all add: bothChainsCall_def bareChainIdCall_def rawCall_def)
  have ids: "chain_id optimism = 10" "optId (Some mainnet) = Some 1" "optId None = None"
    by (simp_all add: optimism_def mainnet_def)
  have hx: "numberToHex 10 = Inr ''0xa''" "numberToHex 5 = Inr ''0x5''"
    "numberToHex 1 = Inr ''0x1''"
    by (simp_all add: numberToHex_def hexDigits.simps hexDigit_def)
  have dat: "resolveData mintEncoder bothChainsCall = (Inr (Some ''0xdeadbeef''), [])"
    "resolveData mintEncoder bareChainIdCall = (Inr (Some ''0xdeadbeef''), [])"
    "resolveData mintEncoder rawCall = (Inr (Some ''0xdeadbeef''), [])"
    by (simp_all add: resolveData_def bothChainsCall_def bareChainIdCall_def rawCall_def)
  have vl: "resolveValue (call_value bothChainsCall) = Inr None"
    "resolveValue (call_value bareChainIdCall) = Inr None"
    "resolveValue (call_value rawCall) = Inr None"
    by (simp_all add: resolveValue_def bothChainsCall_def bareChainIdCall_def rawCall_def)
  have tos: "call_to bothChainsCall = Some ''0xAAA''" "call_to bareChainIdCall = Some ''0xAAA''"
    "call_to rawCall = Some ''0xAAA''"
    by (simp_all add: bothChainsCall_def bareChainIdCall_def rawCall_def)
  have w: "rawCallWire\<lparr>n_chainId := ''0xa''\<rparr> =
             \<lparr>n_chainId = ''0xa'', n_data = Some ''0xdeadbeef'', n_to = Some ''0xAAA'', n_value = None\<rparr>"
    "rawCallWire\<lparr>n_chainId := ''0x5''\<rparr> =
             \<lparr>n_chainId = ''0x5'', n_data = Some ''0xdeadbeef'', n_to = Some ''0xAAA'', n_value = None\<rparr>"
    "rawCallWire =
             \<lparr>n_chainId = ''0x1'', n_data = Some ''0xdeadbeef'', n_to = Some ''0xAAA'', n_value = None\<rparr>"
    by (simp_all add: rawCallWire_def)
  note d = chain_id_precedence [of bothChainsCall optimism "Some mainnet" 5 mintEncoder
             "rawCallWire\<lparr>n_chainId := ''0xa''\<rparr>" "[]" 10 "''0xa''" "Some ''0xdeadbeef''" "[]" None]
  note b = chain_id_precedence [of bareChainIdCall optimism "Some mainnet" 5 mintEncoder
             "rawCallWire\<lparr>n_chainId := ''0x5''\<rparr>" "[]" 5 "''0x5''" "Some ''0xdeadbeef''" "[]" None]
  note a = chain_id_precedence [of rawCall optimism "Some mainnet" 5 mintEncoder
             rawCallWire "[]" 1 "''0x1''" "Some ''0xdeadbeef''" "[]" None]
  note z = chain_id_precedence [of rawCall optimism None 5 mintEncoder
             rawCallWire "[]" 1 "''0x1''" "Some ''0xdeadbeef''" "[]" None]
  have nd: "normalizeCall mintEncoder (Some mainnet) bothChainsCall =
       (Inr (rawCallWire\<lparr>n_chainId := ''0xa''\<rparr>), [])"
    using d f ids hx dat vl tos w by simp
  have nb: "normalizeCall mintEncoder (Some mainnet) bareChainIdCall =
       (Inr (rawCallWire\<lparr>n_chainId := ''0x5''\<rparr>), [])"
    using b f ids hx dat vl tos w by simp
  have na: "normalizeCall mintEncoder (Some mainnet) rawCall = (Inr rawCallWire, [])"
    using a f ids hx dat vl tos w by simp
  have rz: "resolveChainId None rawCall = None" using z f ids by simp
  with z have nz: "normalizeCall mintEncoder None rawCall = (Inl ChainNotFoundError, [])"
    by blast
  from d nd have ex: "\<exists>j. resolveChainId (Some mainnet) bothChainsCall = Some j
          \<and> numberToHex j = Inr (n_chainId (rawCallWire\<lparr>n_chainId := ''0xa''\<rparr>))"
    by blast
  from f nd nb na rz nz ex show ?thesis by blast
qed

text \<open>
  Claim C7. When the mapping of the calls succeeds, the output has the length of the
  input, and the element at index \<open>i\<close> is what the callback returns for the input call
  at index \<open>i\<close>: the callback reads only that call and the batch-level chain, so nothing
  is reordered, dropped or merged.
\<close>

theorem normalization_preserves_length_and_order:
  assumes "mapCalls enc chain cs = (Inr ns, tr)"
  shows "length ns = length cs
         \<and> (\<forall>i<length cs. fst (normalizeCall enc chain (cs ! i)) = Inr (ns ! i))"
  using mapCalls_Inr [OF assms] by (simp add: list_all2_conv_all_nth)

theorem normalization_preserves_length_and_order_witness:
  "mapCalls mintEncoder (Some mainnet) [rawCall, transferCall] =
     (Inr [rawCallWire, transferCallWire], [])
   \<and> length [rawCallWire, transferCallWire] = length [rawCall, transferCall]
   \<and> fst (normalizeCall mintEncoder (Some mainnet) ([rawCall, transferCall] ! 1)) =
       Inr ([rawCallWire, transferCallWire] ! 1)"
proof -
  note r = normalization_preserves_length_and_order [OF scenario_normalized]
  have "(1::nat) < length [rawCall, transferCall]" by simp
  with r have "fst (normalizeCall mintEncoder (Some mainnet) ([rawCall, transferCall] ! 1)) =
       Inr ([rawCallWire, transferCallWire] ! 1)" by blast
  with r scenario_normalized show ?thesis by blast
qed

text \<open>
  Claim C10. A call whose effective chain id is the number 0, from whichever of the three
  levels it comes, is treated like a call without chain: the callback throws
  \<open>ChainNotFoundError\<close> without invoking the encoder. Hence no call of a request
  that reaches the agent has the chain id \<open>0x0\<close>.
\<close>

theorem chain_id_zero_is_missing:
  "(resolveChainId chain c = Some 0 \<longrightarrow>
      normalizeCall enc chain c = (Inl ChainNotFoundError, []))
   \<and> (ClientRequest r opts \<in> set (snd (sendCalls enc client ps)) \<longrightarrow>
        (\<forall>w\<in>set (rpc_params r). \<forall>n\<in>set (w_calls w). n_chainId n \<noteq> ''0x0''))"
proof (intro conjI impI ballI)
  assume "resolveChainId chain c = Some 0"
  then show "normalizeCall enc chain c = (Inl ChainNotFoundError, [])"
    by (simp add: normalizeCall_def)
next
  fix w n
  assume ev: "ClientRequest r opts \<in> set (snd (sendCalls enc client ps))"
    and w: "w \<in> set (rpc_params r)" and n: "n \<in> set (w_calls w)"
  let ?chain = "withDefault (p_chain ps) (client_chain client)"
  from sendCalls_request_event [OF ev] w obtain tr where
    m: "mapCalls enc ?chain (p_calls ps) = (Inr (w_calls w), tr)"
    by auto
  from mapCalls_Inr [OF m] n obtain c where
    "fst (normalizeCall enc ?chain c) = Inr n"
    by (auto simp: list_all2_conv_all_nth in_set_conv_nth)
  from normalizeCall_Inr_chainId [OF this] obtain j where
    "j \<noteq> 0" "numberToHex j = Inr (n_chainId n)" by blast
  with numberToHex_zero_wire [of j] show "n_chainId n \<noteq> ''0x0''" by auto
qed

theorem chain_id_zero_is_missing_witness:
  "resolveChainId (Some mainnet) (rawCall\<lparr>call_chain := Some zeroChain\<rparr>) = Some 0
   \<and> normalizeCall mintEncoder (Some mainnet) (rawCall\<lparr>call_chain := Some zeroChain\<rparr>) =
       (Inl ChainNotFoundError, [])
   \<and> ClientRequest
        \<lparr>rpc_method = ''wallet_sendCalls'',
         rpc_params = [\<lparr>w_calls = [rawCallWire], w_capabilities = None, w_chainId = ''0x1'',
                        w_from = ''0xA0Cf'', w_version = ''1.0''\<rparr>]\<rparr>
        \<lparr>retryCount = 0\<rparr>
        \<in> set (snd (sendCalls mintEncoder (acceptingClient None (Some mainnet)) (batch [rawCall])))
   \<and> n_chainId rawCallWire \<noteq> ''0x0''"
proof -
  let ?w = "\<lparr>w_calls = [rawCallWire], w_capabilities = None, w_chainId = ''0x1'',
                        w_from = ''0xA0Cf'', w_version = ''1.0''\<rparr>"
  let ?r = "\<lparr>rpc_method = ''wallet_sendCalls'', rpc_params = [?w]\<rparr>"
  let ?o = "\<lparr>retryCount = 0\<rparr>"
  let ?c = "rawCall\<lparr>call_chain := Some zeroChain\<rparr>"
  have z: "resolveChainId (Some mainnet) ?c = Some 0"
    by (simp add: resolveChainId_def zeroChain_def rawCall_def)
  have ev: "ClientRequest ?r ?o
        \<in> set (snd (sendCalls mintEncoder (acceptingClient None (Some mainnet)) (batch [rawCall])))"
    by (simp add: model_defs input_defs)
  note t = chain_id_zero_is_missing [of "Some mainnet" ?c mintEncoder ?r ?o
              "acceptingClient None (Some mainnet)" "batch [rawCall]"]
  from t z have a: "normalizeCall mintEncoder (Some mainnet) ?c = (Inl ChainNotFoundError, [])"
    by blast
  from t ev have "\<forall>w\<in>set (rpc_params ?r). \<forall>n\<in>set (w_calls w). n_chainId n \<noteq> ''0x0''"
    by blast
  then have "n_chainId rawCallWire \<noteq> ''0x0''" by simp
  with z a ev show ?thesis by blast
qed

text \<open>
  Claim C2, as the code has it. The test on line 116 is a truthiness test, so the
  normalized call has a \<open>value\<close> exactly when the source call has a transfer amount
  that is not zero, and it is then the hexadecimal form of that amount. An absent
  amount stays absent; the amount zero becomes absent as well.
\<close>

theorem value_present_iff_nonzero:
  assumes "normalizeCall enc chain c = (Inr n, tr)"
  shows "(n_value n \<noteq> None \<longleftrightarrow> (\<exists>v. call_value c = Some v \<and> v \<noteq> 0))
         \<and> map_option Inr (n_value n) =
             (case call_value c of
                None \<Rightarrow> None
              | Some v \<Rightarrow> if v = 0 then None else Some (numberToHex v))"
proof -
  note r = resolveValue_Inr [OF normalizeCall_Inr_value [OF assms]]
  then have "n_value n \<noteq> None \<longleftrightarrow> (\<exists>v. call_value c = Some v \<and> v \<noteq> 0)"
    by (cases "call_value c"; cases "n_value n") (auto split: if_splits)
  with r show ?thesis by blast
qed

theorem value_present_iff_nonzero_witness:
  "normalizeCall mintEncoder (Some mainnet) transferCall = (Inr transferCallWire, [])
   \<and> n_value transferCallWire \<noteq> None
   \<and> map_option Inr (n_value transferCallWire) = Some (numberToHex 69420)"
proof -
  have h: "normalizeCall mintEncoder (Some mainnet) transferCall = (Inr transferCallWire, [])"
    by (simp add: model_defs input_defs)
  have v: "call_value transferCall = Some 69420"
    by (simp add: transferCall_def rawCall_def)
  from value_present_iff_nonzero [OF h] v h show ?thesis by simp
qed

text \<open>
  The claim as written fails for the amount zero: the amount is present in the source
  call and the normalized call has no \<open>value\<close>.
\<close>

theorem zero_value_is_dropped:
  "call_value zeroValueCall = Some 0
   \<and> map_sum id n_value (fst (normalizeCall mintEncoder (Some mainnet) zeroValueCall)) = Inr None"
  by (simp add: model_defs input_defs)

text \<open>
  Claim C8. Whenever the encoder is invoked during a run and fails, the caller receives
  exactly the value the encoder threw: it is not caught, not wrapped by
  \<open>getTransactionError\<close>, and the agent is not reached. The encoder is invoked for
  every call that has an \<open>abi\<close> and a truthy chain id, and its failure is then what the
  callback throws.
\<close>

theorem encoding_failure_propagates_unmodified:
  "(EncodeFunctionData abi fn args \<in> set (snd (sendCalls enc client ps)) \<longrightarrow>
      enc abi fn args = Inl e \<longrightarrow>
        fst (sendCalls enc client ps) = Inl e
      \<and> filter isClientRequest (snd (sendCalls enc client ps)) = [])
   \<and> (call_abi c = Some abi' \<longrightarrow> resolveChainId chain c = Some k \<longrightarrow> k \<noteq> 0 \<longrightarrow>
        enc abi' (call_functionName c) (call_args c) = Inl e' \<longrightarrow>
          normalizeCall enc chain c =
            (Inl e', [EncodeFunctionData abi' (call_functionName c) (call_args c)]))"
proof (intro conjI impI)
  assume c: "call_abi c = Some abi'" "resolveChainId chain c = Some k" "k \<noteq> 0"
    "enc abi' (call_functionName c) (call_args c) = Inl e'"
  then show "normalizeCall enc chain c =
            (Inl e', [EncodeFunctionData abi' (call_functionName c) (call_args c)])"
    by (simp add: normalizeCall_def resolveData_def)
next
  assume ev: "EncodeFunctionData abi fn args \<in> set (snd (sendCalls enc client ps))"
    and f: "enc abi fn args = Inl e"
  let ?acc = "withDefault (p_account ps) (map_option AccountObj (client_account client))"
  let ?chain = "withDefault (p_chain ps) (client_chain client)"
  let ?ver = "case p_version ps of Some v \<Rightarrow> v | None \<Rightarrow> ''1.0''"
  have nf: "\<not> falsyAccount ?acc"
    using ev sendCalls_falsy [of ps client enc] by auto
  then obtain a where a: "?acc = Some a" by (cases ?acc) auto
  obtain m tr where m: "mapCalls enc ?chain (p_calls ps) = (m, tr)"
    by (cases "mapCalls enc ?chain (p_calls ps)")
  have "sendCalls enc client ps = (Inl e, tr)"
  proof (cases m)
    case (Inl e1)
    with sendCalls_map_fails [OF nf] m have s: "sendCalls enc client ps = (Inl e1, tr)" by simp
    with ev have "EncodeFunctionData abi fn args \<in> set tr" by simp
    from mapCalls_encode_failure [OF m this f] Inl s show ?thesis by simp
  next
    case (Inr ns)
    obtain d tr' where d: "dispatch client ?chain ns (p_capabilities ps) (parseAccount a) ?ver = (d, tr')"
      by (cases "dispatch client ?chain ns (p_capabilities ps) (parseAccount a) ?ver")
    have "snd (sendCalls enc client ps) = tr @ tr'"
      using sendCalls_map_ok [OF a _ _ d, of enc tr] nf a m Inr by simp
    moreover have "EncodeFunctionData abi fn args \<notin> set tr'"
      using dispatch_trace_requests [of "EncodeFunctionData abi fn args" client ?chain ns
              "p_capabilities ps" "parseAccount a" ?ver] d by auto
    ultimately have "EncodeFunctionData abi fn args \<in> set tr" using ev by simp
    from mapCalls_encode_failure [OF m this f] Inr show ?thesis by simp
  qed
  with mapCalls_no_request [OF m]
  show "fst (sendCalls enc client ps) = Inl e" 
    and "filter isClientRequest (snd (sendCalls enc client ps)) = []"
    by simp_all
qed

theorem encoding_failure_propagates_unmodified_witness:
  "EncodeFunctionData ''[mint]'' (Some ''mint'') (Some [])
     \<in> set (snd (sendCalls failingEncoder (acceptingClient None (Some mainnet))
                   (batch [rawCall, structuredCall, transferCall])))
   \<and> failingEncoder ''[mint]'' (Some ''mint'') (Some []) = Inl (AbiEncodingError ''function not found'')
   \<and> fst (sendCalls failingEncoder (acceptingClient None (Some mainnet))
            (batch [rawCall, structuredCall, transferCall])) =
       Inl (AbiEncodingError ''function not found'')
   \<and> filter isClientRequest
        (snd (sendCalls failingEncoder (acceptingClient None (Some mainnet))
               (batch [rawCall, structuredCall, transferCall]))) = []
   \<and> call_abi structuredCall = Some ''[mint]''
   \<and> resolveChainId (Some mainnet) structuredCall = Some 1
   \<and> normalizeCall failingEncoder (Some mainnet) structuredCall =
       (Inl (AbiEncodingError ''function not found''),
        [EncodeFunctionData ''[mint]'' (Some ''mint'') (Some [])])"
proof -
  let ?run = "sendCalls failingEncoder (acceptingClient None (Some mainnet))
                (batch [rawCall, structuredCall, transferCall])"
  have ev: "EncodeFunctionData ''[mint]'' (Some ''mint'') (Some []) \<in> set (snd ?run)"
    by (simp add: model_defs input_defs)
  have f: "failingEncoder ''[mint]'' (Some ''mint'') (Some []) =
             Inl (AbiEncodingError ''function not found'')"
    by (simp add: failingEncoder_def)
  have c: "call_abi structuredCall = Some ''[mint]''"
    "call_functionName structuredCall = Some ''mint''" "call_args structuredCall = Some []"
    "resolveChainId (Some mainnet) structuredCall = Some 1"
    by (simp_all add: resolveChainId_def input_defs)
  note t = encoding_failure_propagates_unmodified
             [of "''[mint]''" "Some ''mint''" "Some []" failingEncoder
                 "acceptingClient None (Some mainnet)" "batch [rawCall, structuredCall, transferCall]"
                 "AbiEncodingError ''function not found''" structuredCall "''[mint]''"
                 "Some mainnet" 1 "AbiEncodingError ''function not found''"]
  from t ev f have "fst ?run = Inl (AbiEncodingError ''function not found'')
                  \<and> filter isClientRequest (snd ?run) = []" by blast
  moreover from t c f have "normalizeCall failingEncoder (Some mainnet) structuredCall =
       (Inl (AbiEncodingError ''function not found''),
        [EncodeFunctionData ''[mint]'' (Some ''mint'') (Some [])])" by simp
  ultimately show ?thesis using ev f c by blast
qed

text \<open>
  Claim C6, as the code has it. A batch that contains a call whose chain id resolves at
  no level always fails, and the agent is never invoked. What the caller receives is the
  first throw in source order: \<open>AccountNotFoundError\<close> when no account is available;
  otherwise the error of the first call that fails to normalize, which is that call or a
  call before it. So it is \<open>ChainNotFoundError\<close> when every call before that call
  normalizes, and otherwise whatever the earlier call threw.
\<close>

theorem unresolvable_chain_aborts_before_dispatch:
  assumes "c \<in> set (p_calls ps)"
    and "resolveChainId (withDefault (p_chain ps) (client_chain client)) c = None"
  shows "isl (fst (sendCalls enc client ps))
       \<and> filter isClientRequest (snd (sendCalls enc client ps)) = []
       \<and> (\<not> falsyAccount (withDefault (p_account ps) (map_option AccountObj (client_account client)))
            \<longrightarrow> (\<forall>pre post. p_calls ps = pre @ c # post \<longrightarrow>
                   (\<forall>x\<in>set pre.
                      \<not> isl (fst (normalizeCall enc (withDefault (p_chain ps) (client_chain client)) x)))
                   \<longrightarrow> fst (sendCalls enc client ps) = Inl ChainNotFoundError))
       \<and> (falsyAccount (withDefault (p_account ps) (map_option AccountObj (client_account client)))
            \<longrightarrow> fst (sendCalls enc client ps) =
                   Inl (AccountNotFoundError ''/experimental/eip5792/sendCalls''))
       \<and> (\<not> falsyAccount (withDefault (p_account ps) (map_option AccountObj (client_account client)))
            \<longrightarrow> (\<forall>pre x post e. p_calls ps = pre @ x # post \<longrightarrow>
                   (\<forall>y\<in>set pre.
                      \<not> isl (fst (normalizeCall enc (withDefault (p_chain ps) (client_chain client)) y)))
                   \<longrightarrow> fst (normalizeCall enc (withDefault (p_chain ps) (client_chain client)) x) = Inl e
                   \<longrightarrow> fst (sendCalls enc client ps) = Inl e))
       \<and> (\<not> falsyAccount (withDefault (p_account ps) (map_option AccountObj (client_account client)))
            \<longrightarrow> (\<exists>pre x post e. p_calls ps = pre @ x # post \<and> c \<in> set (x # post)
                   \<and> (\<forall>y\<in>set pre.
                      \<not> isl (fst (normalizeCall enc (withDefault (p_chain ps) (client_chain client)) y)))
                   \<and> fst (normalizeCall enc (withDefault (p_chain ps) (client_chain client)) x) = Inl e
                   \<and> fst (sendCalls enc client ps) = Inl e))"
proof (cases "falsyAccount (withDefault (p_account ps) (map_option AccountObj (client_account client)))")
  case True
  from sendCalls_falsy [OF True, of enc] True show ?thesis by simp
next
  case False
  let ?chain = "withDefault (p_chain ps) (client_chain client)"
  have nc: "normalizeCall enc ?chain c = (Inl ChainNotFoundError, [])"
    by (rule normalizeCall_no_chain [OF assms(2)])
  obtain m tr where m: "mapCalls enc ?chain (p_calls ps) = (m, tr)"
    by (cases "mapCalls enc ?chain (p_calls ps)")
  from mapCalls_fails_if_some_call_fails [OF assms(1), of enc ?chain] nc m
  obtain e where e: "m = Inl e" by (cases m) auto
  with sendCalls_map_fails [OF False] m have s: "sendCalls enc client ps = (Inl e, tr)" by simp
  have any: "fst (sendCalls enc client ps) = Inl e'"
    if "p_calls ps = pre @ x # post"
      and "\<forall>y\<in>set pre. \<not> isl (fst (normalizeCall enc ?chain y))"
      and "fst (normalizeCall enc ?chain x) = Inl e'" for pre x post e'
    using sendCalls_first_failure [OF False that] .
  have first: "fst (sendCalls enc client ps) = Inl ChainNotFoundError"
    if "p_calls ps = pre @ c # post"
      and "\<forall>x\<in>set pre. \<not> isl (fst (normalizeCall enc ?chain x))" for pre post
    using any [OF that] nc by simp
  from first_failing_call [OF assms(1), of enc ?chain] nc obtain pre x post where
    d: "p_calls ps = pre @ x # post" "c \<in> set (x # post)"
       "\<forall>y\<in>set pre. \<not> isl (fst (normalizeCall enc ?chain y))"
       "isl (fst (normalizeCall enc ?chain x))"
    by auto
  then obtain e' where e': "fst (normalizeCall enc ?chain x) = Inl e'"
    by (cases "fst (normalizeCall enc ?chain x)") auto
  from any [OF d(1) d(3) e'] d e'
  have ex: "\<exists>pre x post e. p_calls ps = pre @ x # post \<and> c \<in> set (x # post)
                   \<and> (\<forall>y\<in>set pre. \<not> isl (fst (normalizeCall enc ?chain y)))
                   \<and> fst (normalizeCall enc ?chain x) = Inl e
                   \<and> fst (sendCalls enc client ps) = Inl e"
    by blast
  have a: "isl (fst (sendCalls enc client ps))" using s by simp
  have b: "filter isClientRequest (snd (sendCalls enc client ps)) = []"
    using s mapCalls_no_request [OF m] by simp
  from a b first any ex False show ?thesis by blast
qed

theorem unresolvable_chain_aborts_before_dispatch_witness:
  "rawCall \<in> set (p_calls (batch [ownChainCall, rawCall, transferCall]))
   \<and> resolveChainId (withDefault (p_chain (batch [ownChainCall, rawCall, transferCall]))
                       (client_chain (acceptingClient None None))) rawCall = None
   \<and> \<not> falsyAccount (withDefault (p_account (batch [ownChainCall, rawCall, transferCall]))
                        (map_option AccountObj (client_account (acceptingClient None None))))
   \<and> p_calls (batch [ownChainCall, rawCall, transferCall]) = [ownChainCall] @ rawCall # [transferCall]
   \<and> \<not> isl (fst (normalizeCall mintEncoder None ownChainCall))
   \<and> fst (sendCalls mintEncoder (acceptingClient None None)
            (batch [ownChainCall, rawCall, transferCall])) = Inl ChainNotFoundError
   \<and> filter isClientRequest
        (snd (sendCalls mintEncoder (acceptingClient None None)
               (batch [ownChainCall, rawCall, transferCall]))) = []
   \<and> rawCall \<in> set (p_calls (batch [failingStructuredCall, rawCall]))
   \<and> p_calls (batch [failingStructuredCall, rawCall]) = [] @ failingStructuredCall # [rawCall]
   \<and> fst (normalizeCall failingEncoder None failingStructuredCall) =
       Inl (AbiEncodingError ''function not found'')
   \<and> fst (sendCalls failingEncoder (acceptingClient None None)
            (batch [failingStructuredCall, rawCall])) = Inl (AbiEncodingError ''function not found'')
   \<and> falsyAccount (withDefault (p_account ((batch [rawCall])\<lparr>p_account := None\<rparr>))
                      (map_option AccountObj (client_account (acceptingClient None None))))
   \<and> fst (sendCalls mintEncoder (acceptingClient None None) ((batch [rawCall])\<lparr>p_account := None\<rparr>)) =
       Inl (AccountNotFoundError ''/experimental/eip5792/sendCalls'')"
proof -
  let ?ps = "batch [ownChainCall, rawCall, transferCall]"
  let ?qs = "batch [failingStructuredCall, rawCall]"
  let ?rs = "(batch [rawCall])\<lparr>p_account := None\<rparr>"
  let ?cl = "acceptingClient None None"
  have ch: "withDefault (p_chain ?ps) (client_chain ?cl) = None"
    "withDefault (p_chain ?qs) (client_chain ?cl) = None"
    "withDefault (p_chain ?rs) (client_chain ?cl) = None"
    by (simp_all add: batch_def acceptingClient_def)
  have raw: "resolveChainId None rawCall = None"
    by (simp add: resolveChainId_def rawCall_def)
  have mem: "rawCall \<in> set (p_calls ?ps)" "rawCall \<in> set (p_calls ?qs)"
    "rawCall \<in> set (p_calls ?rs)"
    by (simp_all add: batch_def)
  have un: "resolveChainId (withDefault (p_chain ?ps) (client_chain ?cl)) rawCall = None"
    "resolveChainId (withDefault (p_chain ?qs) (client_chain ?cl)) rawCall = None"
    "resolveChainId (withDefault (p_chain ?rs) (client_chain ?cl)) rawCall = None"
    unfolding ch by (rule raw)+
  have acc: "\<not> falsyAccount (withDefault (p_account ?ps)
                (map_option AccountObj (client_account ?cl)))"
    "\<not> falsyAccount (withDefault (p_account ?qs)
                (map_option AccountObj (client_account ?cl)))"
    by (simp_all add: batch_def)
  have noacc: "falsyAccount (withDefault (p_account ?rs)
                (map_option AccountObj (client_account ?cl)))"
    by (simp add: batch_def acceptingClient_def)
  have dec: "p_calls ?ps = [ownChainCall] @ rawCall # [transferCall]"
    "p_calls ?qs = [] @ failingStructuredCall # [rawCall]"
    by (simp_all add: batch_def)
  have pre: "\<not> isl (fst (normalizeCall mintEncoder None ownChainCall))"
    by (simp add: model_defs input_defs)
  then have pre': "\<forall>x\<in>set [ownChainCall].
      \<not> isl (fst (normalizeCall mintEncoder (withDefault (p_chain ?ps) (client_chain ?cl)) x))"
    by (simp add: ch)
  have fl: "fst (normalizeCall failingEncoder None failingStructuredCall) =
       Inl (AbiEncodingError ''function not found'')"
    by (simp add: model_defs input_defs)
  then have fl': "fst (normalizeCall failingEncoder (withDefault (p_chain ?qs) (client_chain ?cl))
                      failingStructuredCall) = Inl (AbiEncodingError ''function not found'')"
    by (simp add: ch)
  have emp: "\<forall>y\<in>set []. \<not> isl (fst (normalizeCall failingEncoder
                (withDefault (p_chain ?qs) (client_chain ?cl)) y))" by simp
  note t = unresolvable_chain_aborts_before_dispatch [OF mem(1) un(1), of mintEncoder]
  note u = unresolvable_chain_aborts_before_dispatch [OF mem(2) un(2), of failingEncoder]
  note v = unresolvable_chain_aborts_before_dispatch [OF mem(3) un(3), of mintEncoder]
  from t have a: "filter isClientRequest (snd (sendCalls mintEncoder ?cl ?ps)) = []" by blast
  from t acc(1) dec(1) pre'
  have b: "fst (sendCalls mintEncoder ?cl ?ps) = Inl ChainNotFoundError" by blast
  from u acc(2) dec(2) emp fl'
  have c: "fst (sendCalls failingEncoder ?cl ?qs) = Inl (AbiEncodingError ''function not found'')"
    by blast
  from v noacc
  have d: "fst (sendCalls mintEncoder ?cl ?rs) =
             Inl (AccountNotFoundError ''/experimental/eip5792/sendCalls'')" by blast
  from a b c d mem un acc noacc dec pre fl show ?thesis by blast
qed

text \<open>
  The claim as written fails when an earlier call throws first: here the first call's
  encoding fails, and the caller receives the encoder's error, not
  \<open>ChainNotFoundError\<close>.
\<close>

theorem earlier_encoding_failure_wins:
  "rawCall \<in> set (p_calls (batch [failingStructuredCall, rawCall]))
   \<and> resolveChainId (withDefault (p_chain (batch [failingStructuredCall, rawCall]))
                       (client_chain (acceptingClient None None))) rawCall = None
   \<and> sendCalls failingEncoder (acceptingClient None None) (batch [failingStructuredCall, rawCall]) =
       (Inl (AbiEncodingError ''function not found''),
        [EncodeFunctionData ''[mint]'' (Some ''mint'') (Some [])])
   \<and> AbiEncodingError ''function not found'' \<noteq> ChainNotFoundError"
  by (simp add: model_defs input_defs)

subsection \<open>Dispatch\<close>

text \<open>
  The batch-level \<open>chainId\<close> of the request is converted on line 128 without a
  presence check of its own: a batch chain with id 0 whose calls all name their own chain
  is sent with the batch-level chain id \<open>0x0\<close>. The check of line 102 concerns the
  chain ids of the calls only.
\<close>

lemma batch_level_chain_id_is_not_checked:
  "snd (sendCalls mintEncoder (acceptingClient None (Some zeroChain)) (batch [ownChainCall])) =
     [ClientRequest
        (scenarioRequest\<lparr>rpc_params :=
           [\<lparr>w_calls = [rawCallWire], w_capabilities = None, w_chainId = ''0x0'',
             w_from = ''0xA0Cf'', w_version = ''1.0''\<rparr>]\<rparr>)
        \<lparr>retryCount = 0\<rparr>]"
  by (simp add: model_defs input_defs)

text \<open>
  Claim C9. Whatever the inputs, the operation calls \<open>client.request\<close> at most once,
  and a call that is made carries the option \<open>retryCount = 0\<close> and is the only one of
  the run, also when the agent answers it with a fault: this code never makes a second
  attempt.
\<close>

theorem single_request_without_retry:
  "length (filter isClientRequest (snd (sendCalls enc client ps))) \<le> 1
   \<and> (\<forall>r opts. ClientRequest r opts \<in> set (snd (sendCalls enc client ps)) \<longrightarrow>
          retryCount opts = 0
        \<and> filter isClientRequest (snd (sendCalls enc client ps)) = [ClientRequest r opts])"
proof -
  have one: "filter isClientRequest (snd (sendCalls enc client ps)) = [ClientRequest r opts]
             \<and> retryCount opts = 0"
    if "ClientRequest r opts \<in> set (snd (sendCalls enc client ps))" for r opts
  proof -
    from sendCalls_request_event [OF that] obtain ns tr where
      m: "mapCalls enc (withDefault (p_chain ps) (client_chain client)) (p_calls ps) = (Inr ns, tr)"
      and o: "opts = \<lparr>retryCount = 0\<rparr>"
      and t: "snd (sendCalls enc client ps) = tr @ [ClientRequest r opts]"
      by blast
    have "filter isClientRequest tr = []" by (rule mapCalls_no_request [OF m])
    with t o show ?thesis by simp
  qed
  have "length (filter isClientRequest (snd (sendCalls enc client ps))) \<le> 1"
  proof (cases "filter isClientRequest (snd (sendCalls enc client ps))")
    case Nil
    then show ?thesis by simp
  next
    case (Cons e es)
    then have "e \<in> set (snd (sendCalls enc client ps)) \<and> isClientRequest e"
      by (metis filter_eq_ConsD in_set_conv_decomp)
    then obtain r opts where "e = ClientRequest r opts"
      "ClientRequest r opts \<in> set (snd (sendCalls enc client ps))"
      by (cases e) auto
    with one show ?thesis by simp
  qed
  with one show ?thesis by blast
qed

theorem single_request_without_retry_witness:
  "ClientRequest
     \<lparr>rpc_method = ''wallet_sendCalls'',
      rpc_params = [\<lparr>w_calls = [rawCallWire], w_capabilities = None, w_chainId = ''0x1'',
                     w_from = ''0xA0Cf'', w_version = ''1.0''\<rparr>]\<rparr>
     \<lparr>retryCount = 0\<rparr>
     \<in> set (snd (sendCalls mintEncoder (rejectingClient None (Some mainnet)) (batch [rawCall])))
   \<and> length (filter isClientRequest
         (snd (sendCalls mintEncoder (rejectingClient None (Some mainnet)) (batch [rawCall])))) = 1
   \<and> isl (fst (sendCalls mintEncoder (rejectingClient None (Some mainnet)) (batch [rawCall])))"
proof -
  let ?r = "\<lparr>rpc_method = ''wallet_sendCalls'',
      rpc_params = [\<lparr>w_calls = [rawCallWire], w_capabilities = None, w_chainId = ''0x1'',
                     w_from = ''0xA0Cf'', w_version = ''1.0''\<rparr>]\<rparr>"
  let ?run = "sendCalls mintEncoder (rejectingClient None (Some mainnet)) (batch [rawCall])"
  have ev: "?run =
      (Inl (TransactionExecutionError (RpcRequestError ''user rejected'')
             ((batch [rawCall])\<lparr>p_account := Some (AccountObj (parseAccount (AddressRef ''0xA0Cf'')))\<rparr>)),
       [ClientRequest ?r \<lparr>retryCount = 0\<rparr>])"
    by (simp add: model_defs input_defs)
  then have mem: "ClientRequest ?r \<lparr>retryCount = 0\<rparr> \<in> set (snd ?run)" by simp
  from single_request_without_retry [of mintEncoder "rejectingClient None (Some mainnet)" "batch [rawCall]"]
    mem
  have "filter isClientRequest (snd ?run) = [ClientRequest ?r \<lparr>retryCount = 0\<rparr>]" by blast
  with mem ev show ?thesis by simp
qed

text \<open>
  Claim C1, evaluated at a batch whose only call names its own chain, sent through a
  client without chain and without a \<open>chain\<close> parameter. The call normalizes, but
  \<open>chain!.id\<close> on line 128 then reads a property of \<open>undefined\<close>: the
  \<open>TypeError\<close> is caught and wrapped, and the agent, which would have accepted the
  request, is never invoked.
\<close>

theorem own_chain_batch_without_batch_chain_is_not_dispatched:
  "fst (mapCalls mintEncoder None [ownChainCall]) = Inr [rawCallWire]
   \<and> sendCalls mintEncoder (acceptingClient None None) (batch [ownChainCall]) =
       (Inl (TransactionExecutionError TypeError
              ((batch [ownChainCall])\<lparr>p_account := Some (AccountObj jsonRpcAccount)\<rparr>)), [])"
  by (simp add: model_defs input_defs)

text \<open>
  Claim C3, as the code has it. When the agent rejects the request, the caller receives
  what \<open>getTransactionError\<close> makes of the agent's error and of a context: a transaction
  error to which that context is attached. The context is the original parameters with
  \<open>account\<close> replaced by the resolved account; its \<open>chain\<close> is the \<open>chain\<close> parameter
  as it was passed.
\<close>

theorem dispatch_failure_is_translated:
  assumes "ClientRequest r opts \<in> set (snd (sendCalls enc client ps))"
    and "client_request client r opts = Inl err"
  shows "\<exists>a ctx cause.
           withDefault (p_account ps) (map_option AccountObj (client_account client)) = Some a
         \<and> fst (sendCalls enc client ps) = Inl (getTransactionError err ctx)
         \<and> getTransactionError err ctx = TransactionExecutionError cause ctx
         \<and> p_account ctx = Some (AccountObj (parseAccount a))
         \<and> p_chain ctx = p_chain ps
         \<and> p_calls ctx = p_calls ps
         \<and> p_capabilities ctx = p_capabilities ps
         \<and> p_version ctx = p_version ps"
proof -
  from sendCalls_request_event [OF assms(1)] assms(2) obtain a where
    a: "withDefault (p_account ps) (map_option AccountObj (client_account client)) = Some a"
    and f: "fst (sendCalls enc client ps) =
              Inl (TransactionExecutionError err
                     (ps\<lparr>p_account := Some (AccountObj (parseAccount a))\<rparr>))"
    by auto
  let ?ctx = "ps\<lparr>p_account := Some (AccountObj (parseAccount a))\<rparr>"
  have "p_account ?ctx = Some (AccountObj (parseAccount a))" "p_chain ?ctx = p_chain ps"
    "p_calls ?ctx = p_calls ps" "p_capabilities ?ctx = p_capabilities ps"
    "p_version ?ctx = p_version ps"
    "getTransactionError err ?ctx = TransactionExecutionError err ?ctx"
    by (simp_all add: getTransactionError_def)
  with a f show ?thesis by metis
qed

theorem dispatch_failure_is_translated_witness:
  "ClientRequest scenarioRequest \<lparr>retryCount = 0\<rparr>
     \<in> set (snd (sendCalls mintEncoder (rejectingClient None (Some mainnet)) (batch [rawCall])))
   \<and> client_request (rejectingClient None (Some mainnet)) scenarioRequest \<lparr>retryCount = 0\<rparr> =
       Inl (RpcRequestError ''user rejected'')
   \<and> (\<exists>ctx cause.
          fst (sendCalls mintEncoder (rejectingClient None (Some mainnet)) (batch [rawCall])) =
            Inl (TransactionExecutionError cause ctx)
        \<and> p_account ctx = Some (AccountObj jsonRpcAccount)
        \<and> p_chain ctx = p_chain (batch [rawCall]))"
proof -
  have ev: "ClientRequest scenarioRequest \<lparr>retryCount = 0\<rparr>
     \<in> set (snd (sendCalls mintEncoder (rejectingClient None (Some mainnet)) (batch [rawCall])))"
    by (simp add: rejected_run)
  have rj: "client_request (rejectingClient None (Some mainnet)) scenarioRequest \<lparr>retryCount = 0\<rparr> =
       Inl (RpcRequestError ''user rejected'')"
    by (simp add: rejectingClient_def)
  have ac: "withDefault (p_account (batch [rawCall]))
              (map_option AccountObj (client_account (rejectingClient None (Some mainnet)))) =
            Some (AddressRef ''0xA0Cf'')"
    by (simp add: batch_def)
  have pa: "parseAccount (AddressRef ''0xA0Cf'') = jsonRpcAccount"
    by (simp add: jsonRpcAccount_def)
  from dispatch_failure_is_translated [OF ev rj] ac pa
  have "\<exists>ctx cause.
          fst (sendCalls mintEncoder (rejectingClient None (Some mainnet)) (batch [rawCall])) =
            Inl (TransactionExecutionError cause ctx)
        \<and> p_account ctx = Some (AccountObj jsonRpcAccount)
        \<and> p_chain ctx = p_chain (batch [rawCall])"
    by (metis option.inject)
  with ev rj show ?thesis by blast
qed

text \<open>
  The claim as written fails when the chain comes from the client: the batch is sent for
  chain 1, the client's chain, and the context of the error has no chain.
\<close>

theorem error_context_chain_is_the_parameter:
  "withDefault (p_chain (batch [rawCall])) (client_chain (rejectingClient None (Some mainnet))) =
     Some mainnet
   \<and> sendCalls mintEncoder (rejectingClient None (Some mainnet)) (batch [rawCall]) =
       (Inl (TransactionExecutionError (RpcRequestError ''user rejected'')
              ((batch [rawCall])\<lparr>p_account := Some (AccountObj jsonRpcAccount)\<rparr>)),
        [ClientRequest scenarioRequest \<lparr>retryCount = 0\<rparr>])
   \<and> p_chain ((batch [rawCall])\<lparr>p_account := Some (AccountObj jsonRpcAccount)\<rparr>) = None"
  by (simp add: rejected_run) (simp add: batch_def rejectingClient_def)

end
